theory Spec2Isabelle
  imports Complex_Main "HOL-Library.Word" "HOL-Library.Sublist"
begin

section \<open>The mock AI service of ko-ho (src/lib/ai-service.ts)\<close>

subsection \<open>JavaScript values\<close>

text \<open>
  A JavaScript string is a sequence of UTF-16 code units. The Japanese literals of the
  source are written out as their code units, with a transliteration beside them.
\<close>

type_synonym jsstring = "16 word list"

text \<open>
  TypeScript's types are erased when the code runs, and the \<open>catch\<close> blocks of the
  source are there for fields that are not strings. The model admits one such value: a
  missing field, \<open>undefined\<close>. A profile all of whose fields are \<open>JStr\<close> is a value of
  the declared interface.
\<close>

datatype jsval = JStr jsstring | JUndefined

text \<open>
  A JavaScript number: the finite doubles are taken as the reals they denote, and the
  arithmetic on them as exact, beside NaN and the two infinities.
\<close>

datatype jsnum = Num real | NaN | PosInfinity | NegInfinity

datatype error = TypeError

text \<open>What a template literal or \<open>+\<close> makes of a value: \<open>`${undefined}`\<close> is "undefined".\<close>

fun toStr :: "jsval \<Rightarrow> jsstring" where
  "toStr (JStr s) = s"
| "toStr JUndefined = [0x75, 0x6E, 0x64, 0x65, 0x66, 0x69, 0x6E, 0x65, 0x64]"

text \<open>\<open>a > b\<close> with a number on the left and a finite number on the right.\<close>

fun num_gt :: "jsnum \<Rightarrow> real \<Rightarrow> bool" where
  "num_gt (Num x) c = (c < x)"
| "num_gt NaN c = False"
| "num_gt PosInfinity c = True"
| "num_gt NegInfinity c = False"

text \<open>\<open>String.prototype.includes\<close>: the search string occurs at some position.\<close>

fun includes_js :: "jsstring \<Rightarrow> jsstring \<Rightarrow> bool" where
  "includes_js [] searchString = (searchString = [])"
| "includes_js (c # cs) searchString =
     (prefix searchString (c # cs) \<or> includes_js cs searchString)"

text \<open>\<open>Math.round\<close>: the nearest integer, a tie going up.\<close>

definition Math_round :: "real \<Rightarrow> real" where
  "Math_round x = of_int \<lfloor>x + 1 / 2\<rfloor>"

text \<open>
  Three built-ins are parameters of the model:
  \<^item> \<open>lower\<close> is \<open>String.prototype.toLowerCase\<close>, Unicode's case mapping;
  \<^item> \<open>numToString\<close> is the conversion of a number to a string in a template literal;
  \<^item> \<open>rnd\<close> is the sequence of values \<open>Math.random()\<close> returns, read at a counter that
    every call advances. \<open>Math.random()\<close> returns a value in [0,1).
\<close>

definition ascii_lower :: "jsstring \<Rightarrow> jsstring" where
  "ascii_lower s = map (\<lambda>c. if 0x41 \<le> c \<and> c \<le> 0x5A then c + 0x20 else c) s"

text \<open>On a string of ASCII code units \<open>toLowerCase\<close> maps A-Z to a-z and nothing else.\<close>

definition lowers_ascii :: "(jsstring \<Rightarrow> jsstring) \<Rightarrow> bool" where
  "lowers_ascii lower = (\<forall>s. list_all (\<lambda>c. c < 0x80) s \<longrightarrow> lower s = ascii_lower s)"

subsection \<open>The interfaces\<close>

datatype Category = INDUSTRY | TOPIC | COMPANY | TECHNOLOGY | EVENT

record TagSuggestion =
  tag_name :: jsstring
  category :: Category
  confidence :: real

record MatchingScoreResult =
  reporterId :: jsval
  contentId :: jsval
  score :: real
  reasons :: "jsstring list"

datatype Tone = FORMAL | CASUAL | URGENT

record RecommendationDraft =
  subject :: jsstring
  body :: jsstring
  tone :: Tone

record ReporterProfile =
  reporter_id :: jsval
  reporter_name :: jsval
  email :: jsval
  company :: jsval
  socialMedia :: jsval

record ContentProfile =
  content_id :: jsval
  title :: jsval
  summary :: jsval
  content_body :: jsval
  status :: jsval

record Recommendation =
  rec_reporterId :: jsval
  draft :: RecommendationDraft

record ProcessResult =
  tags :: "TagSuggestion list"
  matchingResults :: "MatchingScoreResult list"
  recommendations :: "Recommendation list"

subsection \<open>generateTags\<close>

text \<open>
  The catalog: "AI / machine learning" (AI, U+30FB, kikai gakushuu), "IT industry"
  (IT gyoukai), "DX / digital transformation" (DX, U+30FB, dejitaru henkaku) and
  "Recruit" (rikuruuto).
\<close>

definition mockTags :: "TagSuggestion list" where
  "mockTags =
    [\<lparr>tag_name = [0x41, 0x49, 0x30FB, 0x6A5F, 0x68B0, 0x5B66, 0x7FD2],
      category = TECHNOLOGY, confidence = 95 / 100\<rparr>,
     \<lparr>tag_name = [0x49, 0x54, 0x696D, 0x754C],
      category = INDUSTRY, confidence = 8 / 10\<rparr>,
     \<lparr>tag_name = [0x44, 0x58, 0x30FB, 0x30C7, 0x30B8, 0x30BF, 0x30EB, 0x5909, 0x9769],
      category = TECHNOLOGY, confidence = 85 / 100\<rparr>,
     \<lparr>tag_name = [0x30EA, 0x30AF, 0x30EB, 0x30FC, 0x30C8],
      category = COMPANY, confidence = 9 / 10\<rparr>]"

text \<open>The text the filter tests: title, summary and body joined by spaces, lowercased.\<close>

definition contentText :: "(jsstring \<Rightarrow> jsstring) \<Rightarrow> ContentProfile \<Rightarrow> jsstring" where
  "contentText lower content =
     lower (toStr (title content) @ [0x20] @ toStr (summary content) @ [0x20]
            @ toStr (content_body content))"

text \<open>
  The rules, in the source's order: "AI" and "ai", "DX" and "dx", "rikuruuto" in both,
  "IT" and ("it" or "shisutemu"). Nothing in the body of the \<open>try\<close> raises on a string or
  a missing field, so its \<open>catch\<close> (which returns no tags) has no branch here.
\<close>

definition relevant :: "jsstring \<Rightarrow> TagSuggestion \<Rightarrow> bool" where
  "relevant text tag =
     (if includes_js (tag_name tag) [0x41, 0x49] \<and> includes_js text [0x61, 0x69] then True
      else if includes_js (tag_name tag) [0x44, 0x58] \<and> includes_js text [0x64, 0x78] then True
      else if includes_js (tag_name tag) [0x30EA, 0x30AF, 0x30EB, 0x30FC, 0x30C8]
              \<and> includes_js text [0x30EA, 0x30AF, 0x30EB, 0x30FC, 0x30C8] then True
      else if includes_js (tag_name tag) [0x49, 0x54]
              \<and> (includes_js text [0x69, 0x74]
                  \<or> includes_js text [0x30B7, 0x30B9, 0x30C6, 0x30E0]) then True
      else False)"

definition generateTags :: "(jsstring \<Rightarrow> jsstring) \<Rightarrow> ContentProfile \<Rightarrow> TagSuggestion list" where
  "generateTags lower content =
     filter (\<lambda>tag. relevant (contentText lower content) tag) mockTags"

subsection \<open>extractKeywords and calculateMatchingScore\<close>

text \<open>
  The keyword catalog (\<open>keywords\<close> in the source): AI, DX, IT, kuraudo (cloud),
  sekyuriti (security), IoT, sutaatoappu (startup), toushi (investment), kin'yuu (finance), seizou (manufacturing),
  kyouiku (education), rikuruuto (Recruit), tekunorojii (technology), dejitaru (digital),
  shisutemu (system).
\<close>

definition keywords_list :: "jsstring list" where
  "keywords_list =
    [ [0x41, 0x49], [0x44, 0x58], [0x49, 0x54],
     [0x30AF, 0x30E9, 0x30A6, 0x30C9],
     [0x30BB, 0x30AD, 0x30E5, 0x30EA, 0x30C6, 0x30A3],
     [0x49, 0x6F, 0x54],
     [0x30B9, 0x30BF, 0x30FC, 0x30C8, 0x30A2, 0x30C3, 0x30D7],
     [0x6295, 0x8CC7], [0x91D1, 0x878D], [0x88FD, 0x9020], [0x6559, 0x80B2],
     [0x30EA, 0x30AF, 0x30EB, 0x30FC, 0x30C8],
     [0x30C6, 0x30AF, 0x30CE, 0x30ED, 0x30B8, 0x30FC],
     [0x30C7, 0x30B8, 0x30BF, 0x30EB],
     [0x30B7, 0x30B9, 0x30C6, 0x30E0] ]"

text \<open>The filter of \<open>extractKeywords\<close>, on a string.\<close>

definition keywordsIn :: "(jsstring \<Rightarrow> jsstring) \<Rightarrow> jsstring \<Rightarrow> jsstring list" where
  "keywordsIn lower text =
     filter (\<lambda>keyword. includes_js (lower text) (lower keyword)) keywords_list"

text \<open>\<open>text.toLowerCase()\<close> on a missing value raises a TypeError.\<close>

fun extractKeywords :: "(jsstring \<Rightarrow> jsstring) \<Rightarrow> jsval \<Rightarrow> error + jsstring list" where
  "extractKeywords lower JUndefined = Inl TypeError"
| "extractKeywords lower (JStr text) = Inr (keywordsIn lower text)"

text \<open>The reporter's keywords that some keyword of the content contains, case folded.\<close>

definition commonKeywords ::
  "(jsstring \<Rightarrow> jsstring) \<Rightarrow> jsstring list \<Rightarrow> jsstring list \<Rightarrow> jsstring list" where
  "commonKeywords lower reporterKeywords contentKeywords =
     filter (\<lambda>keyword.
        list_ex (\<lambda>contentKeyword. includes_js (lower contentKeyword) (lower keyword))
          contentKeywords) reporterKeywords"

definition baseScore :: "jsstring list \<Rightarrow> real" where
  "baseScore common = min 90 (real (length common) * 15 + 60)"

text \<open>
  The two fixed reasons are "kisha no senmonsei" (the reporter's expertise) and
  "kanrensei no takasa" (high relevance); the reason of the fallback is "keisan eraa"
  (calculation error). The result comes with the counter of \<open>Math.random\<close>, which the
  fallback leaves as it was: the exception is raised before the draw.
\<close>

definition calculateMatchingScore ::
  "(jsstring \<Rightarrow> jsstring) \<Rightarrow> (nat \<Rightarrow> real) \<Rightarrow> nat \<Rightarrow> ReporterProfile \<Rightarrow> ContentProfile
    \<Rightarrow> MatchingScoreResult \<times> nat" where
  "calculateMatchingScore lower rnd n reporter content =
     (case extractKeywords lower (company reporter) of
        Inr reporterKeywords \<Rightarrow>
          (case extractKeywords lower
                  (JStr (toStr (title content) @ [0x20] @ toStr (summary content))) of
             Inr contentKeywords \<Rightarrow>
               (let common = commonKeywords lower reporterKeywords contentKeywords;
                    score0 = baseScore common + rnd n * 10
                in (\<lparr>reporterId = reporter_id reporter,
                      contentId = content_id content,
                      score = Math_round (score0 * 10) / 10,
                      reasons = take 3 common
                        @ [ [0x8A18, 0x8005, 0x306E, 0x5C02, 0x9580, 0x6027],
                           [0x95A2, 0x9023, 0x6027, 0x306E, 0x9AD8, 0x3055] ]\<rparr>,
                    Suc n))
           | Inl e \<Rightarrow>
               (\<lparr>reporterId = reporter_id reporter, contentId = content_id content,
                 score = 0, reasons = [ [0x8A08, 0x7B97, 0x30A8, 0x30E9, 0x30FC] ]\<rparr>, n))
      | Inl e \<Rightarrow>
          (\<lparr>reporterId = reporter_id reporter, contentId = content_id content,
            score = 0, reasons = [ [0x8A08, 0x7B97, 0x30A8, 0x30E9, 0x30FC] ]\<rparr>, n))"

subsection \<open>generateRecommendation\<close>

text \<open>
  \<open>reporter.company.includes(...)\<close> raises a TypeError on a missing company. The
  literals: "[kinkyuu]" (urgent) and "[shuzai go-teian]" (proposal of coverage) in
  lenticular brackets, "shinbun" (newspaper), "media", "sama-muke - " and "ni tsuite".
\<close>

definition generateSubject :: "ContentProfile \<Rightarrow> ReporterProfile \<Rightarrow> jsnum \<Rightarrow> error + jsstring" where
  "generateSubject content reporter score' =
     (let urgency = (if num_gt score' 85 then [0x3010, 0x7DCA, 0x6025, 0x3011]
                     else [0x3010, 0x53D6, 0x6750, 0x3054, 0x63D0, 0x6848, 0x3011])
      in case company reporter of
           JUndefined \<Rightarrow> Inl TypeError
         | JStr c \<Rightarrow>
             (let company' = (if includes_js c [0x65B0, 0x805E] then [0x65B0, 0x805E]
                              else [0x30E1, 0x30C7, 0x30A3, 0x30A2])
              in Inr (urgency @ company' @ [0x69D8, 0x5411, 0x3051, 0x20, 0x2D, 0x20]
                      @ toStr (title content) @ [0x306B, 0x3064, 0x3044, 0x3066])))"

text \<open>The fixed pieces of the body's template, in the order they occur.\<close>

definition body_greeting :: jsstring where
  "body_greeting =
     [0xA, 0xA, 0x3044, 0x3064, 0x3082, 0x304A, 0x4E16, 0x8A71, 0x306B, 0x306A, 0x3063,
      0x3066, 0x304A, 0x308A, 0x307E, 0x3059, 0x3002, 0xA, 0x30EA, 0x30AF, 0x30EB, 0x30FC,
      0x30C8, 0x5E83, 0x5831, 0x62C5, 0x5F53, 0x3067, 0x3059, 0x3002, 0xA, 0xA]"

definition body_judged :: jsstring where
  "body_judged =
     [0x306E, 0x5C02, 0x9580, 0x6027, 0x306B, 0x975E, 0x5E38, 0x306B, 0x9069, 0x3057,
      0x305F, 0x5185, 0x5BB9, 0x3068, 0x5224, 0x65AD, 0x3057, 0x3001]"

definition body_propose :: jsstring where
  "body_propose =
     [0x53D6, 0x6750, 0x3092, 0x3054, 0x63D0, 0x6848, 0x3055, 0x305B, 0x3066, 0x3044,
      0x305F, 0x3060, 0x304D, 0x307E, 0x3059, 0x3002, 0xA, 0xA, 0x30DE, 0x30C3, 0x30C1,
      0x30F3, 0x30B0, 0x30B9, 0x30B3, 0x30A2, 0x3A, 0x20]"

definition body_closing :: jsstring where
  "body_closing =
     [0x70B9, 0xA, 0xA, 0x8A73, 0x7D30, 0x306B, 0x3064, 0x3044, 0x3066, 0x3054, 0x8AAC,
      0x660E, 0x306E, 0x6A5F, 0x4F1A, 0x3092, 0x3044, 0x305F, 0x3060, 0x3051, 0x308C,
      0x3070, 0x5E78, 0x3044, 0x3067, 0x3059, 0x3002, 0xA, 0x304A, 0x5FD9, 0x3057, 0x3044,
      0x4E2D, 0x6050, 0x7E2E, 0x3067, 0x3059, 0x304C, 0x3001, 0x3054, 0x691C, 0x8A0E,
      0x306E, 0x307B, 0x3069, 0x3088, 0x308D, 0x3057, 0x304F, 0x304A, 0x9858, 0x3044,
      0x3044, 0x305F, 0x3057, 0x307E, 0x3059, 0x3002, 0xA, 0xA, 0x30EA, 0x30AF, 0x30EB,
      0x30FC, 0x30C8, 0x5E83, 0x5831, 0x30C1, 0x30FC, 0x30E0]"

text \<open>
  The honorific is "sama" for a newspaper and "san" otherwise; the urgency is
  "zehi yuusenteki ni" (by all means with priority) or empty; "de go-katsuyaku no"
  joins the company and the name.
\<close>

definition generateBody ::
  "(jsnum \<Rightarrow> jsstring) \<Rightarrow> ContentProfile \<Rightarrow> ReporterProfile \<Rightarrow> jsnum \<Rightarrow> error + jsstring" where
  "generateBody numToString content reporter score' =
     (case company reporter of
        JUndefined \<Rightarrow> Inl TypeError
      | JStr c \<Rightarrow>
          (let honorific = (if includes_js c [0x65B0, 0x805E] then [0x69D8]
                            else [0x3055, 0x3093]);
               urgency = (if num_gt score' 85
                          then [0x305C, 0x3072, 0x512A, 0x5148, 0x7684, 0x306B] else [])
           in Inr (toStr (reporter_name reporter) @ honorific @ body_greeting
                   @ toStr (summary content) @ [0xA, 0xA]
                   @ c @ [0x3067, 0x3054, 0x6D3B, 0x8E8D, 0x306E]
                   @ toStr (reporter_name reporter) @ honorific @ body_judged
                   @ urgency @ body_propose @ numToString score' @ body_closing)))"

text \<open>
  The fallback's body is "rekomendo bunshou no seisei ni shippai shimashita."
  (the recommendation text could not be generated).
\<close>

definition fallbackDraft :: "ContentProfile \<Rightarrow> RecommendationDraft" where
  "fallbackDraft content =
     \<lparr>subject = [0x3010, 0x53D6, 0x6750, 0x3054, 0x63D0, 0x6848, 0x3011]
                 @ toStr (title content),
      body = [0x30EC, 0x30B3, 0x30E1, 0x30F3, 0x30C9, 0x6587, 0x7AE0, 0x306E, 0x751F,
              0x6210, 0x306B, 0x5931, 0x6557, 0x3057, 0x307E, 0x3057, 0x305F, 0x3002],
      tone = FORMAL\<rparr>"

definition generateRecommendation ::
  "(jsnum \<Rightarrow> jsstring) \<Rightarrow> ReporterProfile \<Rightarrow> ContentProfile \<Rightarrow> jsnum \<Rightarrow> RecommendationDraft" where
  "generateRecommendation numToString reporter content matchingScore =
     (let tone' = (if num_gt matchingScore 85 then URGENT else FORMAL)
      in case generateSubject content reporter matchingScore of
           Inl e \<Rightarrow> fallbackDraft content
         | Inr subject' \<Rightarrow>
             (case generateBody numToString content reporter matchingScore of
                Inl e \<Rightarrow> fallbackDraft content
              | Inr body' \<Rightarrow> \<lparr>subject = subject', body = body', tone = tone'\<rparr>))"

subsection \<open>processContent\<close>

text \<open>
  \<open>reporters.map(reporter => this.calculateMatchingScore(reporter, content))\<close>: the
  calls run in the order of the list, each to its end (no call awaits anything), so the
  draws of \<open>Math.random\<close> are taken in that order.
\<close>

fun scoreAll ::
  "(jsstring \<Rightarrow> jsstring) \<Rightarrow> (nat \<Rightarrow> real) \<Rightarrow> nat \<Rightarrow> ContentProfile \<Rightarrow> ReporterProfile list
    \<Rightarrow> MatchingScoreResult list \<times> nat" where
  "scoreAll lower rnd n content [] = ([], n)"
| "scoreAll lower rnd n content (reporter # rest) =
     (case calculateMatchingScore lower rnd n reporter content of
        (result, n') \<Rightarrow>
          (case scoreAll lower rnd n' content rest of
             (results, n'') \<Rightarrow> (result # results, n'')))"

text \<open>
  One recommendation: \<open>reporters.find(r => r.id === result.reporterId)!\<close> is the first
  reporter of the list with that id. Were there none, \<open>generateRecommendation\<close> would
  read the name of \<open>undefined\<close> before its \<open>try\<close> and raise.
\<close>

definition recommend ::
  "(jsnum \<Rightarrow> jsstring) \<Rightarrow> ContentProfile \<Rightarrow> ReporterProfile list \<Rightarrow> MatchingScoreResult
    \<Rightarrow> error + Recommendation" where
  "recommend numToString content reporters result =
     (case find (\<lambda>r. reporter_id r = reporterId result) reporters of
        None \<Rightarrow> Inl TypeError
      | Some reporter \<Rightarrow>
          Inr \<lparr>rec_reporterId = reporterId result,
               draft = generateRecommendation numToString reporter content
                         (Num (score result))\<rparr>)"

text \<open>\<open>Promise.all\<close> over the recommendations: rejected as soon as one of them is.\<close>

fun recommendAll ::
  "(jsnum \<Rightarrow> jsstring) \<Rightarrow> ContentProfile \<Rightarrow> ReporterProfile list \<Rightarrow> MatchingScoreResult list
    \<Rightarrow> error + Recommendation list" where
  "recommendAll numToString content reporters [] = Inr []"
| "recommendAll numToString content reporters (result # rest) =
     (case recommend numToString content reporters result of
        Inl e \<Rightarrow> Inl e
      | Inr r \<Rightarrow>
          (case recommendAll numToString content reporters rest of
             Inl e \<Rightarrow> Inl e
           | Inr rs \<Rightarrow> Inr (r # rs)))"

text \<open>The \<open>catch\<close> of \<open>processContent\<close> logs the error and throws it again.\<close>

definition processContent ::
  "(jsstring \<Rightarrow> jsstring) \<Rightarrow> (jsnum \<Rightarrow> jsstring) \<Rightarrow> (nat \<Rightarrow> real) \<Rightarrow> nat \<Rightarrow> ContentProfile
    \<Rightarrow> ReporterProfile list \<Rightarrow> error + (ProcessResult \<times> nat)" where
  "processContent lower numToString rnd n content reporters =
     (let tags' = generateTags lower content
      in case scoreAll lower rnd n content reporters of
           (matchingResults', n') \<Rightarrow>
             (let highScoreReporters = filter (\<lambda>result. 75 \<le> score result) matchingResults'
              in case recommendAll numToString content reporters highScoreReporters of
                   Inl e \<Rightarrow> Inl e
                 | Inr recommendations' \<Rightarrow>
                     Inr (\<lparr>tags = tags', matchingResults = matchingResults',
                           recommendations = recommendations'\<rparr>, n')))"

subsection \<open>The shared-keyword count, as the specification words it\<close>


subsection \<open>Sample inputs\<close>

text \<open>
  Values for the built-ins and two profiles on which the statements below are
  instantiated: a generator that always draws one half, a number conversion that prints
  nothing, the title "Our AI DX project" and the company "Example Newspaper Co. AI desk",
  a reporter whose company is missing and a content with empty texts.
\<close>

definition rnd_half :: "nat \<Rightarrow> real" where
  "rnd_half n = 1 / 2"

definition numToString_blank :: "jsnum \<Rightarrow> jsstring" where
  "numToString_blank x = []"

definition example_title :: jsstring where
  "example_title = [0x4F, 0x75, 0x72, 0x20, 0x41, 0x49, 0x20, 0x44, 0x58, 0x20, 0x70, 0x72,
                    0x6F, 0x6A, 0x65, 0x63, 0x74]"

definition example_company :: jsstring where
  "example_company = [0x45, 0x78, 0x61, 0x6D, 0x70, 0x6C, 0x65, 0x20, 0x4E, 0x65, 0x77, 0x73,
                      0x70, 0x61, 0x70, 0x65, 0x72, 0x20, 0x43, 0x6F, 0x2E, 0x20, 0x41, 0x49,
                      0x20, 0x64, 0x65, 0x73, 0x6B]"

definition reporter_example :: ReporterProfile where
  "reporter_example =
     \<lparr>reporter_id = JStr [0x72, 0x31], reporter_name = JStr [0x41, 0x6E, 0x6E],
      email = JStr [], company = JStr example_company, socialMedia = JUndefined\<rparr>"

definition reporter_missing :: ReporterProfile where
  "reporter_missing =
     \<lparr>reporter_id = JStr [0x72, 0x32], reporter_name = JStr [0x42, 0x6F, 0x62],
      email = JStr [], company = JUndefined, socialMedia = JUndefined\<rparr>"

definition content_example :: ContentProfile where
  "content_example =
     \<lparr>content_id = JStr [0x63, 0x31], title = JStr example_title,
      summary = JStr [], content_body = JStr [], status = JStr []\<rparr>"

definition content_blank :: ContentProfile where
  "content_blank =
     \<lparr>content_id = JStr [0x63, 0x32], title = JStr [], summary = JStr [],
      content_body = JStr [], status = JStr []\<rparr>"

section \<open>Properties\<close>

subsection \<open>Auxiliary facts\<close>

lemma Math_round_ge: "of_int m \<le> x \<Longrightarrow> of_int m \<le> Math_round x"
  unfolding Math_round_def by (simp add: le_floor_iff)

lemma Math_round_le: "x \<le> of_int m \<Longrightarrow> Math_round x \<le> of_int m"
  unfolding Math_round_def by (simp add: floor_le_iff)

lemma baseScore_bounds: "60 \<le> baseScore common \<and> baseScore common \<le> 90"
  by (simp add: baseScore_def)

lemma calc_success:
  assumes "company reporter = JStr c"
  shows "calculateMatchingScore lower rnd n reporter content =
     (let common = commonKeywords lower (keywordsIn lower c)
                     (keywordsIn lower (toStr (title content) @ [0x20] @ toStr (summary content)))
      in (\<lparr>reporterId = reporter_id reporter, contentId = content_id content,
           score = Math_round ((baseScore common + rnd n * 10) * 10) / 10,
           reasons = take 3 common
                        @ [ [0x8A18, 0x8005, 0x306E, 0x5C02, 0x9580, 0x6027],
                           [0x95A2, 0x9023, 0x6027, 0x306E, 0x9AD8, 0x3055] ]\<rparr>, Suc n))"
  using assms by (simp add: calculateMatchingScore_def Let_def)

lemma calc_error:
  assumes "company reporter = JUndefined"
  shows "calculateMatchingScore lower rnd n reporter content =
      (\<lparr>reporterId = reporter_id reporter, contentId = content_id content,
            score = 0, reasons = [ [0x8A08, 0x7B97, 0x30A8, 0x30E9, 0x30FC] ]\<rparr>, n)"
  using assms by (simp add: calculateMatchingScore_def)

lemma score_bounds:
  assumes "b \<le> baseScore common" "0 \<le> u" "u < 1" "b * 10 = of_int m"
  shows "b \<le> Math_round ((baseScore common + u * 10) * 10) / 10"
    and "Math_round ((baseScore common + u * 10) * 10) / 10 \<le> 100"
proof -
  have "of_int m \<le> (baseScore common + u * 10) * 10" using assms by (simp add: algebra_simps) 
  from Math_round_ge[OF this] show "b \<le> Math_round ((baseScore common + u * 10) * 10) / 10"
    using assms(4) by simp
  have "(baseScore common + u * 10) * 10 \<le> of_int 1000" using baseScore_bounds[of common] assms by simp
  from Math_round_le[OF this] show "Math_round ((baseScore common + u * 10) * 10) / 10 \<le> 100"
    by simp
qed



lemma calc_reporterId:
  "reporterId (fst (calculateMatchingScore lower rnd n reporter content)) = reporter_id reporter"
  by (cases "company reporter") (simp_all add: calc_success calc_error Let_def)

lemma scoreAll_ids:
  "map reporterId (fst (scoreAll lower rnd n content reporters)) = map reporter_id reporters"
proof (induction reporters arbitrary: n)
  case Nil
  show ?case by simp
next
  case (Cons reporter rest)
  obtain result n' where c: "calculateMatchingScore lower rnd n reporter content = (result, n')"
    by (cases "calculateMatchingScore lower rnd n reporter content")
  obtain results n'' where s: "scoreAll lower rnd n' content rest = (results, n'')"
    by (cases "scoreAll lower rnd n' content rest")
  have "reporterId result = reporter_id reporter"
    using calc_reporterId[of lower rnd n reporter content] c by simp
  moreover have "map reporterId results = map reporter_id rest"
    using Cons.IH[of n'] s by simp
  ultimately show ?case using c s by simp
qed

lemma recommend_ok:
  assumes "reporterId result \<in> reporter_id ` set reporters"
  shows "\<exists>r. recommend numToString content reporters result = Inr r
            \<and> rec_reporterId r = reporterId result"
proof -
  from assms obtain reporter where
    "find (\<lambda>r. reporter_id r = reporterId result) reporters = Some reporter"
    by (cases "find (\<lambda>r. reporter_id r = reporterId result) reporters")
       (auto simp: find_None_iff)
  then show ?thesis by (simp add: recommend_def)
qed

lemma recommendAll_ok:
  assumes "\<forall>result \<in> set results. reporterId result \<in> reporter_id ` set reporters"
  shows "\<exists>recs. recommendAll numToString content reporters results = Inr recs
            \<and> map rec_reporterId recs = map reporterId results"
  using assms
proof (induction results)
  case Nil
  show ?case by simp
next
  case (Cons result rest)
  from Cons.prems obtain r where
    r: "recommend numToString content reporters result = Inr r"
       "rec_reporterId r = reporterId result"
    using recommend_ok[of result reporters numToString content] by auto
  from Cons obtain recs where
    "recommendAll numToString content reporters rest = Inr recs"
    "map rec_reporterId recs = map reporterId rest"
    by auto
  with r show ?case by simp
qed

lemma processContent_ok:
  "\<exists>out n'. processContent lower numToString rnd n content reporters = Inr (out, n')
      \<and> tags out = generateTags lower content
      \<and> matchingResults out = fst (scoreAll lower rnd n content reporters)
      \<and> map rec_reporterId (recommendations out)
          = map reporterId (filter (\<lambda>result. 75 \<le> score result) (matchingResults out))"
proof -
  obtain results n' where s: "scoreAll lower rnd n content reporters = (results, n')"
    by (cases "scoreAll lower rnd n content reporters")
  have ids: "map reporterId results = map reporter_id reporters"
    using scoreAll_ids[of lower rnd n content reporters] s by simp
  have "\<forall>result \<in> set (filter (\<lambda>result. 75 \<le> score result) results).
          reporterId result \<in> reporter_id ` set reporters"
  proof
    fix result assume "result \<in> set (filter (\<lambda>result. 75 \<le> score result) results)"
    then have "reporterId result \<in> set (map reporterId results)" by simp
    then show "reporterId result \<in> reporter_id ` set reporters" unfolding ids by simp
  qed
  from recommendAll_ok[OF this, of numToString content] obtain recs where
    "recommendAll numToString content reporters (filter (\<lambda>result. 75 \<le> score result) results)
       = Inr recs"
    "map rec_reporterId recs = map reporterId (filter (\<lambda>result. 75 \<le> score result) results)"
    by blast
  with s show ?thesis by (simp add: processContent_def Let_def)
qed

lemma includes_js_refl: "includes_js s s"
  by (cases s) simp_all

lemma lower_AI: "lowers_ascii lower \<Longrightarrow> lower [0x41, 0x49] = [0x61, 0x69]"
  by (simp add: lowers_ascii_def ascii_lower_def)

lemma lower_example_company:
  "lowers_ascii lower \<Longrightarrow> includes_js (lower example_company) [0x61, 0x69]"
  by (simp add: lowers_ascii_def ascii_lower_def example_company_def)

lemma lower_example_text:
  "lowers_ascii lower \<Longrightarrow> includes_js (lower (example_title @ [0x20] @ [])) [0x61, 0x69]"
  by (simp add: lowers_ascii_def ascii_lower_def example_title_def)

lemma example_common:
  assumes "lowers_ascii lower"
  shows "[0x41, 0x49] \<in> set (commonKeywords lower (keywordsIn lower example_company)
                                (keywordsIn lower (example_title @ [0x20] @ [])))"
proof -
  have k: "[0x41, 0x49] \<in> set keywords_list" by (simp add: keywords_list_def)
  have a: "[0x41, 0x49] \<in> set (keywordsIn lower example_company)"
    using k lower_example_company[OF assms] lower_AI[OF assms] by (simp add: keywordsIn_def)
  have b: "[0x41, 0x49] \<in> set (keywordsIn lower (example_title @ [0x20] @ []))"
    using k lower_example_text[OF assms] lower_AI[OF assms] by (simp add: keywordsIn_def)
  show ?thesis
    unfolding commonKeywords_def set_filter list_ex_iff
    using a b includes_js_refl by blast
qed

subsection \<open>calculateMatchingScore\<close>

text \<open>
  Claim C1. Whatever the reporter and the content, the score that
  \<open>calculateMatchingScore\<close> returns lies between 0 and 100: on the path that draws
  from \<open>Math.random\<close> (a value in [0,1), so a delta in [0,10)) and on the fallback;
  the rounded sum of the base score and the delta is in that range for any list
  \<open>common\<close> of shared keywords, however long.
\<close>

theorem C1_score_in_range:
  assumes "0 \<le> rnd n" and "rnd n < 1"
  shows "0 \<le> score (fst (calculateMatchingScore lower rnd n reporter content))
       \<and> score (fst (calculateMatchingScore lower rnd n reporter content)) \<le> 100
       \<and> 0 \<le> Math_round ((baseScore common + rnd n * 10) * 10) / 10
       \<and> Math_round ((baseScore common + rnd n * 10) * 10) / 10 \<le> 100"
proof -
  have m: "(60::real) * 10 = of_int 600" by simp
  have any: "0 \<le> Math_round ((baseScore cs + rnd n * 10) * 10) / 10
           \<and> Math_round ((baseScore cs + rnd n * 10) * 10) / 10 \<le> 100" for cs
  proof -
    have b: "60 \<le> baseScore cs" using baseScore_bounds by simp
    from score_bounds [OF b assms m] show ?thesis by simp
  qed
  have "0 \<le> score (fst (calculateMatchingScore lower rnd n reporter content))
      \<and> score (fst (calculateMatchingScore lower rnd n reporter content)) \<le> 100"
  proof (cases "company reporter")
    case (JStr c)
    then show ?thesis using any by (simp add: calc_success Let_def)
  next
    case JUndefined
    then show ?thesis by (simp add: calc_error)
  qed
  with any [of common] show ?thesis by simp
qed

theorem C1_score_in_range_witness:
  "0 \<le> rnd_half 0 \<and> rnd_half 0 < 1
   \<and> 0 \<le> score (fst (calculateMatchingScore ascii_lower rnd_half 0 reporter_example
                        content_example))
   \<and> score (fst (calculateMatchingScore ascii_lower rnd_half 0 reporter_example
                    content_example)) \<le> 100"
  using C1_score_in_range [where rnd = rnd_half and n = 0 and lower = ascii_lower
      and reporter = reporter_example and content = content_example]
  by (simp add: rnd_half_def)





text \<open>
  Claim C10. When the company is a string the score is at least 60; a score below 60
  is the 0 of the fallback, which only a missing company reaches.
\<close>

theorem C10_success_at_least_60:
  assumes "0 \<le> rnd n" and "rnd n < 1"
  shows "(company reporter \<noteq> JUndefined \<longrightarrow>
            60 \<le> score (fst (calculateMatchingScore lower rnd n reporter content)))
       \<and> (score (fst (calculateMatchingScore lower rnd n reporter content)) < 60 \<longrightarrow>
            company reporter = JUndefined
          \<and> score (fst (calculateMatchingScore lower rnd n reporter content)) = 0)"
proof (cases "company reporter")
  case (JStr c)
  define common where "common = commonKeywords lower (keywordsIn lower c)
     (keywordsIn lower (toStr (title content) @ [0x20] @ toStr (summary content)))"
  have s: "score (fst (calculateMatchingScore lower rnd n reporter content))
             = Math_round ((baseScore common + rnd n * 10) * 10) / 10"
    using JStr by (simp add: calc_success Let_def common_def)
  have b: "60 \<le> baseScore common" using baseScore_bounds by simp
  have m: "(60::real) * 10 = of_int 600" by simp
  from score_bounds(1)[OF b assms m] JStr show ?thesis unfolding s by simp
next
  case JUndefined
  then show ?thesis by (simp add: calc_error)
qed

theorem C10_success_at_least_60_witness:
  "0 \<le> rnd_half 0 \<and> rnd_half 0 < 1 \<and> company reporter_example \<noteq> JUndefined
   \<and> 60 \<le> score (fst (calculateMatchingScore ascii_lower rnd_half 0 reporter_example
                         content_example))
   \<and> score (fst (calculateMatchingScore ascii_lower rnd_half 0 reporter_missing
                    content_example)) < 60
   \<and> company reporter_missing = JUndefined
   \<and> score (fst (calculateMatchingScore ascii_lower rnd_half 0 reporter_missing
                    content_example)) = 0"
  using C10_success_at_least_60 [where rnd = rnd_half and n = 0 and lower = ascii_lower
      and reporter = reporter_example and content = content_example]
    C10_success_at_least_60 [where rnd = rnd_half and n = 0 and lower = ascii_lower
      and reporter = reporter_missing and content = content_example]
  by (simp add: rnd_half_def reporter_example_def reporter_missing_def calc_error)

subsection \<open>generateRecommendation\<close>

text \<open>
  Claim C3. The tone is never CASUAL; it is FORMAL whenever the score is not above 85,
  and URGENT only when it is. For a reporter of the declared type (the company is a
  string) the tone is URGENT exactly when the score is above 85.
\<close>

theorem C3_tone:
  "tone (generateRecommendation numToString reporter content matchingScore) \<noteq> CASUAL
   \<and> (\<not> num_gt matchingScore 85 \<longrightarrow>
        tone (generateRecommendation numToString reporter content matchingScore) = FORMAL)
   \<and> (tone (generateRecommendation numToString reporter content matchingScore) = URGENT
        \<longrightarrow> num_gt matchingScore 85)
   \<and> (company reporter \<noteq> JUndefined \<longrightarrow>
        (tone (generateRecommendation numToString reporter content matchingScore) = URGENT
           \<longleftrightarrow> num_gt matchingScore 85))"
  by (cases "company reporter")
     (simp_all add: generateRecommendation_def generateSubject_def generateBody_def
        fallbackDraft_def Let_def)

theorem C3_tone_witness:
  "company reporter_example \<noteq> JUndefined
   \<and> tone (generateRecommendation numToString_blank reporter_example content_example
             (Num (8501 / 100))) = URGENT
   \<and> tone (generateRecommendation numToString_blank reporter_example content_example
             (Num 85)) = FORMAL"
  using C3_tone [where reporter = reporter_example and content = content_example
      and numToString = numToString_blank and matchingScore = "Num (8501 / 100)"]
    C3_tone [where reporter = reporter_example and content = content_example
      and numToString = numToString_blank and matchingScore = "Num 85"]
  by (simp add: reporter_example_def)

subsection \<open>generateTags\<close>

text \<open>
  Claim C5. When the lowercased text of the content contains "ai", the tags returned
  include the AI / machine learning tag, of category TECHNOLOGY and confidence 0.95.
\<close>

theorem C5_ai_tag:
  assumes "includes_js (contentText lower content) [0x61, 0x69]"
  shows "\<lparr>tag_name = [0x41, 0x49, 0x30FB, 0x6A5F, 0x68B0, 0x5B66, 0x7FD2],
          category = TECHNOLOGY, confidence = 95 / 100\<rparr> \<in> set (generateTags lower content)"
  using assms by (simp add: generateTags_def mockTags_def relevant_def)

theorem C5_ai_tag_witness:
  "includes_js (contentText ascii_lower content_example) [0x61, 0x69]
   \<and> \<lparr>tag_name = [0x41, 0x49, 0x30FB, 0x6A5F, 0x68B0, 0x5B66, 0x7FD2],
       category = TECHNOLOGY, confidence = 95 / 100\<rparr>
       \<in> set (generateTags ascii_lower content_example)"
proof -
  have h: "includes_js (contentText ascii_lower content_example) [0x61, 0x69]"
    by (simp add: contentText_def content_example_def example_title_def ascii_lower_def)
  from h C5_ai_tag [OF h] show ?thesis by simp
qed

text \<open>
  Claim C6. When the lowercased text of the content contains none of "ai", "dx",
  "rikuruuto", "it" and "shisutemu", no tag is returned.
\<close>

theorem C6_no_rule_no_tag:
  assumes "\<not> includes_js (contentText lower content) [0x61, 0x69]"
      and "\<not> includes_js (contentText lower content) [0x64, 0x78]"
      and "\<not> includes_js (contentText lower content) [0x30EA, 0x30AF, 0x30EB, 0x30FC, 0x30C8]"
      and "\<not> includes_js (contentText lower content) [0x69, 0x74]"
      and "\<not> includes_js (contentText lower content) [0x30B7, 0x30B9, 0x30C6, 0x30E0]"
  shows "generateTags lower content = []"
  using assms by (simp add: generateTags_def mockTags_def relevant_def)

theorem C6_no_rule_no_tag_witness:
  "\<not> includes_js (contentText ascii_lower content_blank) [0x61, 0x69]
   \<and> \<not> includes_js (contentText ascii_lower content_blank) [0x64, 0x78]
   \<and> \<not> includes_js (contentText ascii_lower content_blank)
          [0x30EA, 0x30AF, 0x30EB, 0x30FC, 0x30C8]
   \<and> \<not> includes_js (contentText ascii_lower content_blank) [0x69, 0x74]
   \<and> \<not> includes_js (contentText ascii_lower content_blank) [0x30B7, 0x30B9, 0x30C6, 0x30E0]
   \<and> generateTags ascii_lower content_blank = []"
proof -
  have t: "contentText ascii_lower content_blank = [0x20, 0x20]"
    by (simp add: contentText_def content_blank_def ascii_lower_def)
  have h1: "\<not> includes_js (contentText ascii_lower content_blank) [0x61, 0x69]"
    and h2: "\<not> includes_js (contentText ascii_lower content_blank) [0x64, 0x78]"
    and h3: "\<not> includes_js (contentText ascii_lower content_blank)
                 [0x30EA, 0x30AF, 0x30EB, 0x30FC, 0x30C8]"
    and h4: "\<not> includes_js (contentText ascii_lower content_blank) [0x69, 0x74]"
    and h5: "\<not> includes_js (contentText ascii_lower content_blank)
                 [0x30B7, 0x30B9, 0x30C6, 0x30E0]"
    unfolding t by simp_all
  from h1 h2 h3 h4 h5 C6_no_rule_no_tag [OF h1 h2 h3 h4 h5] show ?thesis by simp
qed

subsection \<open>processContent\<close>

text \<open>
  Claim C4. For the content titled "Our AI DX project" with empty summary and body and
  a single reporter of the company "Example Newspaper Co. AI desk", with
  \<open>toLowerCase\<close> mapping ASCII as it does: at least one keyword is common, the base
  score is at least 75, so is the rounded score whatever the draw, and
  \<open>processContent\<close> returns one recommendation, for that reporter.
\<close>

theorem C4_example_gets_draft:
  assumes "lowers_ascii lower" and "0 \<le> rnd n" and "rnd n < 1"
    and "title content = JStr example_title" and "summary content = JStr []"
    and "content_body content = JStr []"
    and "company reporter = JStr example_company"
  shows "1 \<le> length (commonKeywords lower (keywordsIn lower example_company)
                        (keywordsIn lower (example_title @ [0x20] @ [])))
       \<and> 75 \<le> baseScore (commonKeywords lower (keywordsIn lower example_company)
                            (keywordsIn lower (example_title @ [0x20] @ [])))
       \<and> 75 \<le> score (fst (calculateMatchingScore lower rnd n reporter content))
       \<and> processContent lower numToString rnd n content [reporter]
           = Inr (\<lparr>tags = generateTags lower content,
                   matchingResults = [fst (calculateMatchingScore lower rnd n reporter content)],
                   recommendations =
                     [\<lparr>rec_reporterId = reporter_id reporter,
                       draft = generateRecommendation numToString reporter content
                         (Num (score (fst (calculateMatchingScore lower rnd n reporter content))))\<rparr>]\<rparr>,
                  Suc n)"
proof -
  define common where "common = commonKeywords lower (keywordsIn lower example_company)
                        (keywordsIn lower (example_title @ [0x20] @ []))"
  have "0 < length common"
    using example_common[OF assms(1)] unfolding common_def by (rule length_pos_if_in_set)
  then have k: "1 \<le> length common" by (simp add: Suc_le_eq)
  then have "1 \<le> real (length common)" by simp
  then have b: "75 \<le> baseScore common" by (simp add: baseScore_def)
  obtain result where r: "result = fst (calculateMatchingScore lower rnd n reporter content)"
    by simp
  have c: "calculateMatchingScore lower rnd n reporter content = (result, Suc n)"
    using assms(7) r by (simp add: calc_success Let_def)
  have s: "score result = Math_round ((baseScore common + rnd n * 10) * 10) / 10"
    using assms(4,5,7) r by (simp add: calc_success Let_def common_def)
  have m: "(75::real) * 10 = of_int 750" by simp
  have hi: "75 \<le> score result"
    unfolding s by (rule score_bounds(1)[OF b assms(2,3) m])
  have id: "reporterId result = reporter_id reporter"
    using r calc_reporterId by simp
  have "processContent lower numToString rnd n content [reporter]
           = Inr (\<lparr>tags = generateTags lower content, matchingResults = [result],
                   recommendations =
                     [\<lparr>rec_reporterId = reporter_id reporter,
                       draft = generateRecommendation numToString reporter content
                         (Num (score result))\<rparr>]\<rparr>, Suc n)"
    using c hi id by (simp add: processContent_def recommend_def Let_def)
  with k b hi show ?thesis unfolding common_def r by simp
qed

theorem C4_example_gets_draft_witness:
  "lowers_ascii ascii_lower \<and> 0 \<le> rnd_half 0 \<and> rnd_half 0 < 1
   \<and> title content_example = JStr example_title \<and> summary content_example = JStr []
   \<and> content_body content_example = JStr []
   \<and> company reporter_example = JStr example_company
   \<and> 75 \<le> score (fst (calculateMatchingScore ascii_lower rnd_half 0 reporter_example
                         content_example))
   \<and> processContent ascii_lower numToString_blank rnd_half 0 content_example
        [reporter_example]
       = Inr (\<lparr>tags = generateTags ascii_lower content_example,
               matchingResults =
                 [fst (calculateMatchingScore ascii_lower rnd_half 0 reporter_example
                         content_example)],
               recommendations =
                 [\<lparr>rec_reporterId = JStr [0x72, 0x31],
                   draft = generateRecommendation numToString_blank reporter_example
                     content_example
                     (Num (score (fst (calculateMatchingScore ascii_lower rnd_half 0
                                         reporter_example content_example))))\<rparr>]\<rparr>,
              Suc 0)"
proof -
  have h1: "lowers_ascii ascii_lower" by (simp add: lowers_ascii_def)
  have h2: "0 \<le> rnd_half 0" and h3: "rnd_half 0 < 1" by (simp_all add: rnd_half_def)
  have h4: "title content_example = JStr example_title"
    and h5: "summary content_example = JStr []"
    and h6: "content_body content_example = JStr []"
    by (simp_all add: content_example_def)
  have h7: "company reporter_example = JStr example_company"
    by (simp add: reporter_example_def)
  have i: "reporter_id reporter_example = JStr [0x72, 0x31]"
    by (simp add: reporter_example_def)
  from C4_example_gets_draft [where lower = ascii_lower and rnd = rnd_half and n = 0
      and content = content_example and reporter = reporter_example
      and numToString = numToString_blank, OF h1 h2 h3 h4 h5 h6 h7]
  show ?thesis using h1 h2 h3 h4 h5 h6 h7 unfolding i by simp
qed

text \<open>
  Claim C8. With no reporters \<open>processContent\<close> returns no match results and no
  recommendations, and its tags are those of \<open>generateTags\<close>; with any list of
  reporters it returns, and the tags are still those of \<open>generateTags\<close>.
\<close>

theorem C8_tags_independent:
  "processContent lower numToString rnd n content []
     = Inr (\<lparr>tags = generateTags lower content, matchingResults = [], recommendations = []\<rparr>, n)
   \<and> (\<exists>out n'. processContent lower numToString rnd n content reporters = Inr (out, n')
         \<and> tags out = generateTags lower content)"
proof
  show "processContent lower numToString rnd n content []
     = Inr (\<lparr>tags = generateTags lower content, matchingResults = [], recommendations = []\<rparr>, n)"
    by (simp add: processContent_def)
  show "\<exists>out n'. processContent lower numToString rnd n content reporters = Inr (out, n')
         \<and> tags out = generateTags lower content"
    using processContent_ok[of lower numToString rnd n content reporters] by blast
qed

text \<open>
  Claim C9, as stated, fails on the empty list of reporters: no match result has a
  score of 75 or more, and yet the match results are empty.
\<close>

theorem C9_empty_reporters_counterexample:
  "processContent ascii_lower numToString_blank rnd_half 0 content_blank []
     = Inr (\<lparr>tags = [], matchingResults = [], recommendations = []\<rparr>, 0)"
  by (simp add: processContent_def generateTags_def mockTags_def relevant_def contentText_def
        content_blank_def ascii_lower_def)

text \<open>
  Claim C9, amended. \<open>processContent\<close> returns one match result for each reporter, in
  the order of the list (so the results are non-empty when the list is), and one
  recommendation for each match result whose score is at least 75, in order; when no
  match result has such a score there is no recommendation.
\<close>

theorem C9_recommendations_threshold:
  "\<exists>out n'. processContent lower numToString rnd n content reporters = Inr (out, n')
     \<and> matchingResults out = fst (scoreAll lower rnd n content reporters)
     \<and> map reporterId (matchingResults out) = map reporter_id reporters
     \<and> (reporters \<noteq> [] \<longrightarrow> matchingResults out \<noteq> [])
     \<and> map rec_reporterId (recommendations out)
         = map reporterId (filter (\<lambda>result. 75 \<le> score result) (matchingResults out))
     \<and> ((\<forall>result \<in> set (matchingResults out). \<not> 75 \<le> score result)
           \<longrightarrow> recommendations out = [])"
proof -
  from processContent_ok[of lower numToString rnd n content reporters] obtain out n' where
    p: "processContent lower numToString rnd n content reporters = Inr (out, n')"
       "matchingResults out = fst (scoreAll lower rnd n content reporters)"
       "map rec_reporterId (recommendations out)
          = map reporterId (filter (\<lambda>result. 75 \<le> score result) (matchingResults out))"
    by blast
  have ids: "map reporterId (matchingResults out) = map reporter_id reporters"
    using p(2) scoreAll_ids by simp
  then have ne: "reporters \<noteq> [] \<longrightarrow> matchingResults out \<noteq> []" by auto
  have "recommendations out = []"
    if "\<forall>result \<in> set (matchingResults out). \<not> 75 \<le> score result"
  proof -
    from that have "filter (\<lambda>result. 75 \<le> score result) (matchingResults out) = []"
      by (simp add: filter_empty_conv)
    with p(3) show ?thesis by simp
  qed
  with p ids ne show ?thesis by blast
qed

theorem C9_recommendations_threshold_witness:
  "\<exists>out n'. processContent ascii_lower numToString_blank rnd_half 0 content_blank
               [reporter_missing] = Inr (out, n')
     \<and> [reporter_missing] \<noteq> []
     \<and> (\<forall>result \<in> set (matchingResults out). \<not> 75 \<le> score result)
     \<and> matchingResults out \<noteq> []
     \<and> recommendations out = []"
proof -
  from C9_recommendations_threshold [where lower = ascii_lower
      and numToString = numToString_blank and rnd = rnd_half and n = 0
      and content = content_blank and reporters = "[reporter_missing]"]
  obtain out n' where
    p: "processContent ascii_lower numToString_blank rnd_half 0 content_blank
          [reporter_missing] = Inr (out, n')"
    and m: "matchingResults out
          = fst (scoreAll ascii_lower rnd_half 0 content_blank [reporter_missing])"
    and ne: "[reporter_missing] \<noteq> [] \<longrightarrow> matchingResults out \<noteq> []"
    and e: "(\<forall>result \<in> set (matchingResults out). \<not> 75 \<le> score result)
              \<longrightarrow> recommendations out = []"
    by blast
  have c: "company reporter_missing = JUndefined" by (simp add: reporter_missing_def)
  have low: "\<forall>result \<in> set (matchingResults out). \<not> 75 \<le> score result"
    unfolding m by (simp add: calc_error [OF c])
  from p ne e low show ?thesis by blast
qed

end
